theory Spec2Isabelle
  imports Main "HOL-Library.AList"
begin

section \<open>The serving callbacks of \<^verbatim>\<open>nlp/QA_Deploy.ipynb\<close>\<close>

text \<open>
  The notebook's first code cell defines the two callbacks of the hosting runtime,
  \<^verbatim>\<open>model_fn\<close> and \<^verbatim>\<open>transform_fn\<close>; its second cell archives the model files; the
  last cells drive the serving SDK. The callbacks call into \<^verbatim>\<open>json\<close>, \<^verbatim>\<open>gluonnlp\<close>,
  \<^verbatim>\<open>mxnet\<close>, \<^verbatim>\<open>bert.data.qa\<close> and \<^verbatim>\<open>bert_qa_evaluate\<close>, none of which is part of the
  file. Those calls are the fields of a record, one field per call site, and every
  field that is a call may raise: whatever the names of the cell denote in the
  serving module's namespace is an instance of the record (a name that does not
  resolve there is the instance whose field raises \<^verbatim>\<open>NameError\<close>).
\<close>

subsection \<open>Exceptions\<close>

text \<open>
  \<^verbatim>\<open>IndexError\<close> and \<^verbatim>\<open>ValueError\<close> are the two exceptions the cell's own statements
  raise (a list index out of range, a tuple of the wrong length unpacked); every other
  exception comes out of a library call and is carried by its name. A library call
  that raises \<^verbatim>\<open>IndexError\<close> (or a subclass of it) raises \<open>IndexError\<close>.
\<close>

datatype exn = IndexError | ValueError | Raised string

text \<open>Sequencing of two statements: the second runs only when the first did not raise.\<close>

definition and_then :: "exn + 'a \<Rightarrow> ('a \<Rightarrow> exn + 'b) \<Rightarrow> exn + 'b" where
  "and_then r f = (case r of Inl e \<Rightarrow> Inl e | Inr x \<Rightarrow> f x)"

text \<open>\<^verbatim>\<open>xs[i]\<close> on a Python list, for an index that is not negative.\<close>

definition getitem :: "'a list \<Rightarrow> nat \<Rightarrow> exn + 'a" where
  "getitem xs i = (if i < length xs then Inr (xs ! i) else Inl IndexError)"

text \<open>\<^verbatim>\<open>a, b, c = t\<close> on a Python tuple \<open>t\<close>.\<close>

definition unpack3 :: "'a list \<Rightarrow> exn + ('a \<times> 'a \<times> 'a)" where
  "unpack3 t = (case t of [a, b, c] \<Rightarrow> Inr (a, b, c) | _ \<Rightarrow> Inl ValueError)"

text \<open>
  What a \<^verbatim>\<open>for\<close> statement gets from the object it iterates: each time it asks, the
  next item, the end of the iteration, or an exception. \<open>yielded\<close> lists the items,
  \<open>ending\<close> is the exception that ends the iteration, if one does.
\<close>

datatype 'a iteration = Stop | Raise exn | Yield 'a "'a iteration"

fun yielded :: "'a iteration \<Rightarrow> 'a list" where
  "yielded Stop = []"
| "yielded (Raise e) = []"
| "yielded (Yield x rest) = x # yielded rest"


text \<open>
  A gluon dataset has \<^verbatim>\<open>__getitem__\<close> and \<^verbatim>\<open>__len__\<close> and no \<^verbatim>\<open>__iter__\<close>, so the \<^verbatim>\<open>for\<close>
  statement iterates it by Python's sequence protocol: it asks for the items 0, 1,
  2, ... and takes an \<^verbatim>\<open>IndexError\<close> or a \<^verbatim>\<open>StopIteration\<close> out of \<^verbatim>\<open>__getitem__\<close> as the end
  of the sequence; any other exception leaves the loop. The dataset that
  \<^verbatim>\<open>test_dataset.transform(fn)\<close> returns is lazy: its \<^verbatim>\<open>__getitem__\<close> reads the item of
  \<^verbatim>\<open>test_dataset\<close> (an \<^verbatim>\<open>IndexError\<close> past the last one) and applies \<open>fn\<close> to it, so an
  \<^verbatim>\<open>IndexError\<close> that \<open>fn\<close> raises ends the iteration like the end of the data does.
\<close>

definition ends_iteration :: "exn \<Rightarrow> bool" where
  "ends_iteration e = (e = IndexError \<or> e = Raised ''StopIteration'')"

fun lazy_iteration :: "('x \<Rightarrow> exn + 'y) \<Rightarrow> 'x list \<Rightarrow> 'y iteration" where
  "lazy_iteration fn [] = Stop"
| "lazy_iteration fn (x # xs) =
     (case fn x of
        Inl e \<Rightarrow> if ends_iteration e then Stop else Raise e
      | Inr y \<Rightarrow> Yield y (lazy_iteration fn xs))"

subsection \<open>The imported calls\<close>

text \<open>
  Type parameters: \<open>'o\<close> the library's objects (network, vocabulary, tokenizer,
  transform), \<open>'j\<close> decoded JSON, \<open>'x\<close> an example tuple, \<open>'f\<close> a feature,
  \<open>'i\<close> an example id, \<open>'r\<close> the raw results of one example, \<open>'rs\<close> the container
  \<^verbatim>\<open>get_all_results\<close> returns, \<open>'p\<close> a floating-point probability. Constant
  keyword arguments (\<^verbatim>\<open>ctx=mx.cpu()\<close>, \<^verbatim>\<open>lower=True\<close>, the model name, ...) are part of
  the field.

  \<^item> \<open>get_model\<close>: \<^verbatim>\<open>nlp.model.get_model('bert_12_768_12', ...)\<close>, a pair;
  \<^item> \<open>BertForQA\<close>: \<^verbatim>\<open>bert_qa_evaluate.BertForQA(bert_model)\<close>;
  \<^item> \<open>load_parameters\<close>: \<^verbatim>\<open>net.load_parameters(path, ctx=mx.cpu())\<close>, returning the
    network as the call leaves it;
  \<^item> \<open>BERTTokenizer\<close>: \<^verbatim>\<open>nlp.data.BERTTokenizer(vocab, lower=True)\<close>;
  \<^item> \<open>SQuADTransform\<close>: \<^verbatim>\<open>SQuADTransform(tokenizer, is_pad=False, ...)\<close>;
  \<^item> \<open>json_loads\<close>, \<open>json_dumps\<close>: \<^verbatim>\<open>json.loads\<close>, and \<^verbatim>\<open>json.dumps\<close> on a dictionary
    given as its items in insertion order;
  \<^item> \<open>test_example_transform\<close>: \<^verbatim>\<open>bert_qa_evaluate._test_example_transform(data)\<close>;
    the \<^verbatim>\<open>SimpleDataset\<close> built from its result is the list of the examples;
  \<^item> \<open>get_all_results\<close>: \<^verbatim>\<open>bert_qa_evaluate.get_all_results(net, vocab, squadTransform,
    test_dataset, ctx=mx.cpu())\<close>;
  \<^item> \<open>underscore_transform\<close>: the attribute \<^verbatim>\<open>squadTransform._transform\<close>, the function
    that the transformed dataset applies to an example;
  \<^item> \<open>example_id\<close>: the attribute \<^verbatim>\<open>.example_id\<close> of a feature;
  \<^item> \<open>results_getitem\<close>: \<^verbatim>\<open>all_results[f_id]\<close>;
  \<^item> \<open>BERTBasicTokenizer\<close>: \<^verbatim>\<open>nlp.data.BERTBasicTokenizer(vocab)\<close>;
  \<^item> \<open>predict\<close>: \<^verbatim>\<open>bert_qa_evaluate.predict(features=, results=, tokenizer=)\<close>, the
    pair of the best answer and the n-best list of (text, probability) pairs;
  \<^item> \<open>times100\<close>: \<^verbatim>\<open>p * 100\<close> on a float; \<open>fmt_2f\<close>: \<^verbatim>\<open>'%.2f' % p\<close>.
\<close>

record ('o, 'j, 'x, 'f, 'i, 'r, 'rs, 'p) lib =
  get_model :: "exn + ('o \<times> 'o)"
  BertForQA :: "'o \<Rightarrow> exn + 'o"
  load_parameters :: "'o \<Rightarrow> string \<Rightarrow> exn + 'o"
  BERTTokenizer :: "'o \<Rightarrow> exn + 'o"
  SQuADTransform :: "'o \<Rightarrow> exn + 'o"
  json_loads :: "string \<Rightarrow> exn + 'j"
  test_example_transform :: "'j \<Rightarrow> exn + 'x list"
  get_all_results :: "'o \<Rightarrow> 'o \<Rightarrow> 'o \<Rightarrow> 'x list \<Rightarrow> exn + 'rs"
  underscore_transform :: "'o \<Rightarrow> exn + ('x \<Rightarrow> exn + 'f list)"
  example_id :: "'f \<Rightarrow> 'i"
  results_getitem :: "'rs \<Rightarrow> 'i \<Rightarrow> exn + 'r"
  BERTBasicTokenizer :: "'o \<Rightarrow> exn + 'o"
  predict :: "'f list \<Rightarrow> 'r \<Rightarrow> 'o \<Rightarrow> exn + (string \<times> (string \<times> 'p) list)"
  times100 :: "'p \<Rightarrow> 'p"
  fmt_2f :: "'p \<Rightarrow> string"
  json_dumps :: "('i \<times> string list) list \<Rightarrow> exn + string"

subsection \<open>\<^verbatim>\<open>model_fn\<close>\<close>

text \<open>
  \<^verbatim>\<open>def model_fn(params_path, model_dir = "")\<close>. The tuple it returns is the list of
  its three components.
\<close>

definition model_fn ::
  "('o, 'j, 'x, 'f, 'i, 'r, 'rs, 'p) lib \<Rightarrow> string \<Rightarrow> string \<Rightarrow> exn + 'o list" where
  "model_fn L params_path model_dir =
     and_then (get_model L) (\<lambda>(bert_model, vocab).
     and_then (BertForQA L bert_model) (\<lambda>net.
     let params_path' =
       (if length model_dir > 0 then model_dir @ ''/'' @ params_path else params_path) in
     and_then (load_parameters L net params_path') (\<lambda>net'.
     and_then (BERTTokenizer L vocab) (\<lambda>tokenizer.
     and_then (SQuADTransform L tokenizer) (\<lambda>transform.
     Inr [net', vocab, transform])))))"

subsection \<open>\<^verbatim>\<open>transform_fn\<close>\<close>

text \<open>
  \<^verbatim>\<open>'%.2f%% \t %s' % (nbest[i][1] * 100, nbest[i][0])\<close>: the formatted number, a
  percent sign, a space, a tab, a space, the text.
\<close>

definition format_prediction ::
  "('o, 'j, 'x, 'f, 'i, 'r, 'rs, 'p) lib \<Rightarrow> string \<times> 'p \<Rightarrow> string" where
  "format_prediction L entry =
     fmt_2f L (times100 L (snd entry)) @ ''% '' @ [CHR 0x09] @ '' '' @ fst entry"

text \<open>
  The inner loop \<^verbatim>\<open>for i in range(3): nbest_prediction.append(... nbest[i] ...)\<close>, over
  the indices still to visit.
\<close>

fun nbest_loop ::
  "('o, 'j, 'x, 'f, 'i, 'r, 'rs, 'p) lib \<Rightarrow> (string \<times> 'p) list \<Rightarrow> nat list \<Rightarrow>
     string list \<Rightarrow> exn + string list" where
  "nbest_loop L nbest [] nbest_prediction = Inr nbest_prediction"
| "nbest_loop L nbest (i # rest) nbest_prediction =
     (case getitem nbest i of
        Inl e \<Rightarrow> Inl e
      | Inr entry \<Rightarrow> nbest_loop L nbest rest (nbest_prediction @ [format_prediction L entry]))"

definition nbest_prediction ::
  "('o, 'j, 'x, 'f, 'i, 'r, 'rs, 'p) lib \<Rightarrow> (string \<times> 'p) list \<Rightarrow> exn + string list" where
  "nbest_prediction L nbest = nbest_loop L nbest [0 ..< 3] []"

text \<open>
  The body of \<^verbatim>\<open>for features in data_transform\<close>, on the features of one example.
  \<^verbatim>\<open>all_predictions\<close> is a dictionary: its items in insertion order, and
  \<^verbatim>\<open>all_predictions[f_id] = v\<close> replaces the value of a key it has and appends the
  item otherwise (\<^const>\<open>AList.update\<close>).
\<close>

definition loop_body ::
  "('o, 'j, 'x, 'f, 'i, 'r, 'rs, 'p) lib \<Rightarrow> 'o \<Rightarrow> 'rs \<Rightarrow> ('i \<times> string list) list \<Rightarrow>
     'f list \<Rightarrow> exn + ('i \<times> string list) list" where
  "loop_body L vocab all_results all_predictions features =
     and_then (getitem features 0) (\<lambda>feature0.
     let f_id = example_id L feature0 in
     and_then (results_getitem L all_results f_id) (\<lambda>results.
     and_then (BERTBasicTokenizer L vocab) (\<lambda>tokenizer.
     and_then (predict L features results tokenizer) (\<lambda>(prediction, nbest).
     and_then (nbest_prediction L nbest) (\<lambda>preds.
     Inr (AList.update f_id preds all_predictions))))))"

text \<open>The loop \<^verbatim>\<open>for features in data_transform\<close>, on what is left of the iteration.\<close>

fun for_features ::
  "('o, 'j, 'x, 'f, 'i, 'r, 'rs, 'p) lib \<Rightarrow> 'o \<Rightarrow> 'rs \<Rightarrow> 'f list iteration \<Rightarrow>
     ('i \<times> string list) list \<Rightarrow> exn + ('i \<times> string list) list" where
  "for_features L vocab all_results Stop all_predictions = Inr all_predictions"
| "for_features L vocab all_results (Raise e) all_predictions = Inl e"
| "for_features L vocab all_results (Yield features rest) all_predictions =
     (case loop_body L vocab all_results all_predictions features of
        Inl e \<Rightarrow> Inl e
      | Inr all_predictions' \<Rightarrow> for_features L vocab all_results rest all_predictions')"

text \<open>
  \<^verbatim>\<open>def transform_fn(model, input_data, input_content_type=None,
  output_content_type=None)\<close>. A content type is \<^verbatim>\<open>None\<close> or a string.
\<close>

definition transform_fn ::
  "('o, 'j, 'x, 'f, 'i, 'r, 'rs, 'p) lib \<Rightarrow> 'o list \<Rightarrow> string \<Rightarrow> string option \<Rightarrow>
     string option \<Rightarrow> exn + (string \<times> string option)" where
  "transform_fn L model input_data input_content_type output_content_type =
     and_then (unpack3 model) (\<lambda>(net, vocab, squadTransform).
     and_then (json_loads L input_data) (\<lambda>data.
     and_then (test_example_transform L data) (\<lambda>test_examples_tuples.
     and_then (get_all_results L net vocab squadTransform test_examples_tuples) (\<lambda>all_results.
     and_then (underscore_transform L squadTransform) (\<lambda>fn.
     let data_transform = lazy_iteration fn test_examples_tuples in
     and_then (for_features L vocab all_results data_transform []) (\<lambda>all_predictions.
     and_then (json_dumps L all_predictions) (\<lambda>response_body.
     Inr (response_body, output_content_type))))))))"

section \<open>The archiving cell\<close>

text \<open>
  \<^verbatim>\<open>with tarfile.open("model.tar.gz", "w:gz") as tar: tar.add(...)\<close>, five times. The file
  system is a parameter: what a path names, or the exception that looking it up
  raises (\<^verbatim>\<open>FileNotFoundError\<close>, \<^verbatim>\<open>NotADirectoryError\<close>, ...). \<^verbatim>\<open>tar.add(name)\<close> appends
  the member \<open>name\<close>, and for a directory the members of its entries after it (the
  library's default is to recurse); the entries of a \<open>Dir\<close> are listed in the order
  in which the library visits them. Mode \<^verbatim>\<open>w:gz\<close> starts from an empty archive, and
  the \<^verbatim>\<open>with\<close> block closes the archive with the members added so far also when a
  statement of its body raises.
\<close>

datatype node = File | Dir "(string \<times> node) list"

fun members_of :: "string \<Rightarrow> node \<Rightarrow> string list" where
  "members_of name File = [name]"
| "members_of name (Dir entries) =
     name # concat (map (\<lambda>entry. members_of (name @ ''/'' @ fst entry) (snd entry)) entries)"

text \<open>A statement on the open archive: the members afterwards, and the exception if it raised.\<close>

type_synonym tar_stmt = "string list \<Rightarrow> string list \<times> exn option"

definition tar_add :: "(string \<Rightarrow> exn + node) \<Rightarrow> string \<Rightarrow> tar_stmt" where
  "tar_add fs name tar =
     (case fs name of
        Inl e \<Rightarrow> (tar, Some e)
      | Inr n \<Rightarrow> (tar @ members_of name n, None))"

definition seq :: "tar_stmt \<Rightarrow> tar_stmt \<Rightarrow> tar_stmt" where
  "seq s1 s2 tar = (case s1 tar of (tar', Some e) \<Rightarrow> (tar', Some e) | (tar', None) \<Rightarrow> s2 tar')"

definition archive_cell :: "(string \<Rightarrow> exn + node) \<Rightarrow> string list \<times> exn option" where
  "archive_cell fs =
     (seq (tar_add fs ''code/serve.py'')
     (seq (tar_add fs ''bert/data/qa.py'')
     (seq (tar_add fs ''bert_qa_evaluate.py'')
     (seq (tar_add fs ''bert_qa-7eb11865.params'')
          (tar_add fs ''vocab.json''))))) []"

section \<open>The cells of the notebook\<close>

text \<open>
  The code cells from top to bottom, each with the statements it runs: the callbacks'
  definitions, the archive, the Dockerfile, the registry login, the image build, the
  SDK's model object, then \<^verbatim>\<open>sagemaker_model.deploy\<close>, \<^verbatim>\<open>predictor.predict\<close>, the
  printing of the output and \<^verbatim>\<open>predictor.delete_endpoint\<close>.
\<close>

datatype stmt =
  Define_callbacks | Archive | Write_Dockerfile | Registry_login | Docker_build
  | MXNetModel | Deploy | Predict | Print_output | Delete_endpoint

definition notebook :: "stmt list list" where
  "notebook =
     [[Define_callbacks], [Archive], [Write_Dockerfile], [Registry_login], [Docker_build],
      [MXNetModel], [Deploy], [Predict], [Print_output], [Delete_endpoint]]"

text \<open>The positions of a statement in a run, and "every \<open>a\<close> comes before every \<open>b\<close>".\<close>

definition positions :: "'a \<Rightarrow> 'a list \<Rightarrow> nat list" where
  "positions a xs = filter (\<lambda>i. xs ! i = a) [0 ..< length xs]"

definition precedes :: "'a \<Rightarrow> 'a \<Rightarrow> 'a list \<Rightarrow> bool" where
  "precedes a b xs =
     (positions a xs \<noteq> [] \<and> positions b xs \<noteq> [] \<and>
      list_all (\<lambda>i. list_all (\<lambda>j. i < j) (positions b xs)) (positions a xs))"

section \<open>Small instances of the imported calls\<close>

text \<open>
  An instance on which the callbacks can be run: objects, examples, features and ids
  are numbers, decoded JSON is the list of the examples, a probability is a number of
  hundredths (90 for 0.90). The objects are told apart: the network is 12 once its
  parameters are loaded, the vocabulary is 1, the transform is 4, and a call that gets
  another object in their place raises. The only parameter files are \<^verbatim>\<open>w.params\<close> and
  \<^verbatim>\<open>/opt/ml/model/w.params\<close>; the only JSON texts are \<^verbatim>\<open>[7]\<close>, \<^verbatim>\<open>[7, 8]\<close> and \<^verbatim>\<open>[7, 9]\<close>.
\<close>

definition demo_lib :: "(nat, nat list, nat, nat, nat, nat, nat, nat) lib" where
  "demo_lib =
     \<lparr> get_model = Inr (0, 1),
       BertForQA = (\<lambda>bert_model. if bert_model = 0 then Inr 2 else Inl (Raised ''TypeError'')),
       load_parameters = (\<lambda>net path.
         if path = ''w.params'' \<or> path = ''/opt/ml/model/w.params'' then Inr (net + 10)
         else Inl (Raised ''FileNotFoundError'')),
       BERTTokenizer = (\<lambda>vocab. if vocab = 1 then Inr 3 else Inl (Raised ''TypeError'')),
       SQuADTransform = (\<lambda>tokenizer. if tokenizer = 3 then Inr 4 else Inl (Raised ''TypeError'')),
       json_loads = (\<lambda>s.
         if s = ''[7]'' then Inr [7] else if s = ''[7, 8]'' then Inr [7, 8]
         else if s = ''[7, 9]'' then Inr [7, 9] else Inl (Raised ''JSONDecodeError'')),
       test_example_transform = (\<lambda>data. Inr data),
       get_all_results = (\<lambda>net vocab squadTransform examples.
         if net = 12 \<and> vocab = 1 \<and> squadTransform = 4 then Inr 0
         else Inl (Raised ''TypeError'')),
       underscore_transform = (\<lambda>squadTransform.
         if squadTransform = 4 then Inr (\<lambda>x. Inr [x]) else Inl (Raised ''AttributeError'')),
       example_id = (\<lambda>feature. feature),
       results_getitem = (\<lambda>all_results f_id. Inr f_id),
       BERTBasicTokenizer = (\<lambda>vocab. if vocab = 1 then Inr 5 else Inl (Raised ''TypeError'')),
       predict = (\<lambda>features results tokenizer.
         Inr (''a'', [(''a'', 90), (''b'', 6), (''c'', 4)])),
       times100 = (\<lambda>p. p * 100),
       fmt_2f = (\<lambda>p. if p = 9000 then ''90.00'' else if p = 600 then ''6.00'' else ''4.00''),
       json_dumps = (\<lambda>items. Inr (concat (map (\<lambda>item. concat (snd item)) items))) \<rparr>"

text \<open>
  The same instance with a transform that raises \<^verbatim>\<open>IndexError\<close> on the example 8 (and
  \<^verbatim>\<open>KeyError\<close> on the example 9).
\<close>

definition partial_transform :: "nat \<Rightarrow> exn + nat list" where
  "partial_transform x =
     (if x = 8 then Inl IndexError else if x = 9 then Inl (Raised ''KeyError'') else Inr [x])"

definition partial_lib :: "(nat, nat list, nat, nat, nat, nat, nat, nat) lib" where
  "partial_lib = demo_lib \<lparr> underscore_transform := (\<lambda>squadTransform. Inr partial_transform) \<rparr>"

text \<open>
  A file system for the archiving cell: the five paths the cell adds are regular
  files, and nothing else exists.
\<close>

definition demo_fs :: "string \<Rightarrow> exn + node" where
  "demo_fs name =
     (if name \<in> set [''code/serve.py'', ''bert/data/qa.py'', ''bert_qa_evaluate.py'',
                     ''bert_qa-7eb11865.params'', ''vocab.json'']
      then Inr File else Inl (Raised ''FileNotFoundError''))"

section \<open>Properties\<close>

subsection \<open>Sequencing, indexing and unpacking\<close>

lemma and_then_Inl [simp]: "and_then (Inl e) f = Inl e"
  by (simp add: and_then_def)

lemma and_then_Inr [simp]: "and_then (Inr x) f = f x"
  by (simp add: and_then_def)

lemma and_then_Inr_iff: "and_then r f = Inr y \<longleftrightarrow> (\<exists>x. r = Inr x \<and> f x = Inr y)"
  by (cases r) simp_all

lemma unpack3_Inr_iff: "unpack3 t = Inr r \<longleftrightarrow> (\<exists>a b c. t = [a, b, c] \<and> r = (a, b, c))"
  by (auto simp: unpack3_def split: list.splits)

lemma unpack3_three [simp]: "unpack3 [a, b, c] = Inr (a, b, c)"
  by (simp add: unpack3_def)

subsection \<open>The inner loop\<close>

text \<open>The three index accesses succeed together, or the first one out of range raises.\<close>

lemma nbest_prediction_eq:
  "nbest_prediction L nbest =
     (if 3 \<le> length nbest then Inr (map (format_prediction L) (take 3 nbest)) else Inl IndexError)"
proof -
  have upt3: "[0 ..< 3] = [0, Suc 0, Suc (Suc 0)]"
    by (simp add: upt_rec numeral_3_eq_3)
  show ?thesis
  proof (cases nbest)
    case Nil
    then show ?thesis by (simp add: nbest_prediction_def upt3 getitem_def)
  next
    case (Cons a as)
    note outer = Cons
    show ?thesis
    proof (cases as)
      case Nil
      with outer show ?thesis by (simp add: nbest_prediction_def upt3 getitem_def)
    next
      case (Cons b bs)
      note mid = Cons
      show ?thesis
      proof (cases bs)
        case Nil
        with outer mid show ?thesis by (simp add: nbest_prediction_def upt3 getitem_def)
      next
        case (Cons c cs)
        with outer mid show ?thesis
          by (simp add: nbest_prediction_def upt3 getitem_def numeral_3_eq_3)
      qed
    qed
  qed
qed


subsection \<open>The loop over the features\<close>

lemma set_update_subset: "set (AList.update k v al) \<subseteq> insert (k, v) (set al)"
  by (induction al) auto

lemma loop_body_Inr:
  assumes "loop_body L vocab R acc features = Inr acc'"
  shows "\<exists>feature0 rest results tokenizer prediction nbest preds.
           features = feature0 # rest \<and>
           results_getitem L R (example_id L feature0) = Inr results \<and>
           BERTBasicTokenizer L vocab = Inr tokenizer \<and>
           predict L features results tokenizer = Inr (prediction, nbest) \<and>
           nbest_prediction L nbest = Inr preds \<and>
           acc' = AList.update (example_id L feature0) preds acc"
  using assms
  by (cases features)
     (auto simp: loop_body_def getitem_def and_then_Inr_iff Let_def split: prod.splits)

text \<open>
  A property of the stored items that every iteration establishes for the item it
  stores holds of the dictionary the loop returns.
\<close>

lemma for_features_invariant:
  assumes step: "\<And>features feature0 rest results tokenizer prediction nbest preds.
           features \<in> set (yielded it) \<Longrightarrow> features = feature0 # rest \<Longrightarrow>
           results_getitem L R (example_id L feature0) = Inr results \<Longrightarrow>
           BERTBasicTokenizer L vocab = Inr tokenizer \<Longrightarrow>
           predict L features results tokenizer = Inr (prediction, nbest) \<Longrightarrow>
           nbest_prediction L nbest = Inr preds \<Longrightarrow> P (example_id L feature0) preds"
    and run: "for_features L vocab R it acc = Inr acc'"
    and init: "\<forall>(k, v) \<in> set acc. P k v"
  shows "\<forall>(k, v) \<in> set acc'. P k v"
  using step run init
proof (induction it arbitrary: acc)
  case Stop
  then show ?case by simp
next
  case (Raise e)
  then show ?case by simp
next
  case (Yield features it)
  from Yield.prems(2) obtain acc1 where
    body: "loop_body L vocab R acc features = Inr acc1" and
    rest: "for_features L vocab R it acc1 = Inr acc'"
    by (auto split: sum.splits)
  from loop_body_Inr [OF body] obtain feature0 rest' results tokenizer prediction nbest preds
    where f: "features = feature0 # rest'"
      and r: "results_getitem L R (example_id L feature0) = Inr results"
      and t: "BERTBasicTokenizer L vocab = Inr tokenizer"
      and p: "predict L features results tokenizer = Inr (prediction, nbest)"
      and n: "nbest_prediction L nbest = Inr preds"
      and a: "acc1 = AList.update (example_id L feature0) preds acc"
    by blast
  have new: "P (example_id L feature0) preds"
    using Yield.prems(1) [OF _ f r t p n] by simp
  have inv1: "\<forall>(k, v) \<in> set acc1. P k v"
    using set_update_subset [of "example_id L feature0" preds acc] new Yield.prems(3)
    unfolding a by auto
  have step': "P (example_id L f0) ps"
    if "fs \<in> set (yielded it)" "fs = f0 # rs"
      "results_getitem L R (example_id L f0) = Inr res"
      "BERTBasicTokenizer L vocab = Inr tok"
      "predict L fs res tok = Inr (pr, nb)"
      "nbest_prediction L nb = Inr ps"
    for fs f0 rs res tok pr nb ps
    using Yield.prems(1) [OF _ that(2-6)] that(1) by simp
  show ?case
    by (rule Yield.IH [OF step' rest inv1])
qed

lemma for_features_distinct:
  "for_features L vocab R it acc = Inr acc' \<Longrightarrow> distinct (map fst acc) \<Longrightarrow>
   distinct (map fst acc')"
proof (induction it arbitrary: acc)
  case Stop
  then show ?case by simp
next
  case (Raise e)
  then show ?case by simp
next
  case (Yield features it)
  from Yield.prems(1) obtain acc1 where
    body: "loop_body L vocab R acc features = Inr acc1" and
    rest: "for_features L vocab R it acc1 = Inr acc'"
    by (auto split: sum.splits)
  from loop_body_Inr [OF body] Yield.prems(2) have "distinct (map fst acc1)"
    by (auto simp: distinct_update)
  with Yield.IH [OF rest] show ?case .
qed

subsection \<open>The iteration of the lazy dataset\<close>

text \<open>
  The loop over a dataset whose first examples are all transformed: it runs over those,
  and goes on with the rest of the data from the dictionary it has then.
\<close>

lemma for_features_append:
  assumes "\<forall>x \<in> set pre. \<exists>y. fn x = Inr y"
  shows "for_features L vocab R (lazy_iteration fn (pre @ rest)) acc =
           (case for_features L vocab R (lazy_iteration fn pre) acc of
              Inl e \<Rightarrow> Inl e
            | Inr acc1 \<Rightarrow> for_features L vocab R (lazy_iteration fn rest) acc1)"
  using assms
proof (induction pre arbitrary: acc)
  case Nil
  then show ?case by simp
next
  case (Cons x pre)
  from Cons.prems obtain y where y: "fn x = Inr y" by auto
  from Cons.prems have rest: "\<forall>x \<in> set pre. \<exists>y. fn x = Inr y" by simp
  show ?case
    using Cons.IH [OF rest] y by (simp split: sum.splits)
qed





subsection \<open>The two callbacks\<close>

lemma transform_fn_Inr:
  assumes "transform_fn L model input_data ict oct = Inr (response_body, ct)"
  shows "\<exists>net vocab squadTransform data examples all_results fn all_predictions.
           model = [net, vocab, squadTransform] \<and>
           json_loads L input_data = Inr data \<and>
           test_example_transform L data = Inr examples \<and>
           get_all_results L net vocab squadTransform examples = Inr all_results \<and>
           underscore_transform L squadTransform = Inr fn \<and>
           for_features L vocab all_results (lazy_iteration fn examples) [] =
             Inr all_predictions \<and>
           json_dumps L all_predictions = Inr response_body \<and>
           ct = oct"
  using assms
  by (auto simp: transform_fn_def and_then_Inr_iff unpack3_Inr_iff Let_def)

lemma model_fn_Inr:
  assumes "model_fn L params_path model_dir = Inr model"
  shows "\<exists>bert_model vocab net net' tokenizer transform.
           get_model L = Inr (bert_model, vocab) \<and>
           BertForQA L bert_model = Inr net \<and>
           load_parameters L net
             (if model_dir = [] then params_path else model_dir @ ''/'' @ params_path) = Inr net' \<and>
           BERTTokenizer L vocab = Inr tokenizer \<and>
           SQuADTransform L tokenizer = Inr transform \<and>
           model = [net', vocab, transform]"
  using assms
  by (auto simp: model_fn_def and_then_Inr_iff Let_def split: if_splits)

section \<open>The claims\<close>

text \<open>
  C1. Whenever \<^verbatim>\<open>transform_fn\<close> returns, it has decoded \<open>input_data\<close> with
  \<^verbatim>\<open>json.loads\<close>, and the first component of its result is what \<^verbatim>\<open>json.dumps\<close> returns
  for the dictionary the loop built: a map (no key twice) from example ids, each the
  id of the first feature of an item of the transformed dataset, to lists of
  prediction strings. And it does return that serialisation, with the output content
  type, when the decoding, the library calls, the loop and the serialisation return.
\<close>

theorem transform_fn_json_in_json_out:
  "(transform_fn L model input_data input_content_type output_content_type =
      Inr (response_body, ct) \<longrightarrow>
    (\<exists>data examples vocab squadTransform all_results fn all_predictions.
       json_loads L input_data = Inr data \<and>
       test_example_transform L data = Inr examples \<and>
       underscore_transform L squadTransform = Inr fn \<and>
       for_features L vocab all_results (lazy_iteration fn examples) [] =
         Inr all_predictions \<and>
       distinct (map fst all_predictions) \<and>
       (\<forall>(f_id, preds) \<in> set all_predictions.
          \<exists>features \<in> set (yielded (lazy_iteration fn examples)).
            \<exists>feature0 rest. features = feature0 # rest \<and> f_id = example_id L feature0) \<and>
       json_dumps L all_predictions = Inr response_body)) \<and>
   (json_loads L input_data = Inr data' \<and>
    test_example_transform L data' = Inr examples' \<and>
    get_all_results L net' vocab' squadTransform' examples' = Inr all_results' \<and>
    underscore_transform L squadTransform' = Inr fn' \<and>
    for_features L vocab' all_results' (lazy_iteration fn' examples') [] =
      Inr all_predictions' \<and>
    json_dumps L all_predictions' = Inr response_body' \<longrightarrow>
    transform_fn L [net', vocab', squadTransform'] input_data input_content_type
      output_content_type = Inr (response_body', output_content_type))"
proof -
  have "\<exists>data examples vocab squadTransform all_results fn all_predictions.
       json_loads L input_data = Inr data \<and>
       test_example_transform L data = Inr examples \<and>
       underscore_transform L squadTransform = Inr fn \<and>
       for_features L vocab all_results (lazy_iteration fn examples) [] =
         Inr all_predictions \<and>
       distinct (map fst all_predictions) \<and>
       (\<forall>(f_id, preds) \<in> set all_predictions.
          \<exists>features \<in> set (yielded (lazy_iteration fn examples)).
            \<exists>feature0 rest. features = feature0 # rest \<and> f_id = example_id L feature0) \<and>
       json_dumps L all_predictions = Inr response_body"
    if returns: "transform_fn L model input_data input_content_type output_content_type =
      Inr (response_body, ct)"
  proof -
    from transform_fn_Inr [OF returns]
    obtain vocab squadTransform data examples all_results fn all_predictions where
      loads: "json_loads L input_data = Inr data" and
      ex: "test_example_transform L data = Inr examples" and
      fn: "underscore_transform L squadTransform = Inr fn" and
      run: "for_features L vocab all_results (lazy_iteration fn examples) [] =
              Inr all_predictions" and
      dumps: "json_dumps L all_predictions = Inr response_body"
      by blast
    have keys: "\<forall>(f_id, preds) \<in> set all_predictions.
        \<exists>features \<in> set (yielded (lazy_iteration fn examples)).
          \<exists>feature0 rest. features = feature0 # rest \<and> f_id = example_id L feature0"
      by (rule for_features_invariant [OF _ run]) auto
    have "distinct (map fst all_predictions)"
      using for_features_distinct [OF run] by simp
    with loads ex fn run dumps keys show ?thesis by blast
  qed
  moreover have "json_loads L input_data = Inr data' \<and>
    test_example_transform L data' = Inr examples' \<and>
    get_all_results L net' vocab' squadTransform' examples' = Inr all_results' \<and>
    underscore_transform L squadTransform' = Inr fn' \<and>
    for_features L vocab' all_results' (lazy_iteration fn' examples') [] =
      Inr all_predictions' \<and>
    json_dumps L all_predictions' = Inr response_body' \<longrightarrow>
    transform_fn L [net', vocab', squadTransform'] input_data input_content_type
      output_content_type = Inr (response_body', output_content_type)"
    by (simp add: transform_fn_def)
  ultimately show ?thesis by blast
qed

theorem transform_fn_json_in_json_out_witness:
  "transform_fn demo_lib [12, 1, 4] ''[7]'' None (Some ''application/json'') =
     Inr (''90.00% '' @ [CHR 0x09] @ '' a6.00% '' @ [CHR 0x09] @ '' b4.00% '' @ [CHR 0x09] @ '' c'',
          Some ''application/json'') \<and>
   (\<exists>all_predictions.
      json_loads demo_lib ''[7]'' = Inr [7] \<and>
      distinct (map fst all_predictions) \<and>
      json_dumps demo_lib all_predictions =
        Inr (''90.00% '' @ [CHR 0x09] @ '' a6.00% '' @ [CHR 0x09] @ '' b4.00% '' @ [CHR 0x09] @ '' c''))"
proof -
  let ?s = "''90.00% '' @ [CHR 0x09] @ '' a''"
  let ?t = "''6.00% '' @ [CHR 0x09] @ '' b''"
  let ?u = "''4.00% '' @ [CHR 0x09] @ '' c''"
  have steps: "json_loads demo_lib ''[7]'' = Inr [7] \<and>
    test_example_transform demo_lib [7] = Inr [7] \<and>
    get_all_results demo_lib 12 1 4 [7] = Inr 0 \<and>
    underscore_transform demo_lib 4 = Inr (\<lambda>x. Inr [x]) \<and>
    for_features demo_lib 1 0 (lazy_iteration (\<lambda>x. Inr [x]) [7]) [] = Inr [(7, [?s, ?t, ?u])] \<and>
    json_dumps demo_lib [(7, [?s, ?t, ?u])] = Inr (?s @ ?t @ ?u)"
    by (simp add: demo_lib_def loop_body_def nbest_prediction_eq format_prediction_def
        getitem_def)
  have run: "transform_fn demo_lib [12, 1, 4] ''[7]'' None (Some ''application/json'') =
     Inr (?s @ ?t @ ?u, Some ''application/json'')"
    by (rule transform_fn_json_in_json_out [THEN conjunct2, THEN mp, OF steps])
  from transform_fn_json_in_json_out [THEN conjunct1, THEN mp, OF run]
  obtain data all_predictions where
    "json_loads demo_lib ''[7]'' = Inr data" "distinct (map fst all_predictions)"
    "json_dumps demo_lib all_predictions = Inr (?s @ ?t @ ?u)"
    by blast
  moreover have "json_loads demo_lib ''[7]'' = Inr [7]"
    by (simp add: demo_lib_def)
  ultimately show ?thesis using run by simp blast
qed

text \<open>
  C2. Neither callback handles an exception: whatever a statement of
  their bodies raises is the outcome of the callback, unchanged. That is so for the
  unpacking of the model, for \<^verbatim>\<open>json.loads\<close> and every library call of
  \<^verbatim>\<open>transform_fn\<close> outside the iteration, for every statement of the loop body at every
  item the loop reaches, and for each of the five calls of \<^verbatim>\<open>model_fn\<close> (a missing or
  unreadable parameter file among them). One exception does not leave
  \<^verbatim>\<open>transform_fn\<close>, and it is the \<^verbatim>\<open>for\<close> statement that takes it, not a handler of the
  cell: an \<^verbatim>\<open>IndexError\<close> (or \<^verbatim>\<open>StopIteration\<close>) that \<^verbatim>\<open>squadTransform._transform\<close> raises
  on an example ends the loop there, with the dictionary as the items before have
  left it; any other exception of the transform is the outcome of the loop.
\<close>

theorem exceptions_propagate:
  "(unpack3 model = Inl e \<longrightarrow> transform_fn L model input_data ict oct = Inl e) \<and>
   (json_loads L input_data = Inl e \<longrightarrow>
      transform_fn L [net, vocab, squadTransform] input_data ict oct = Inl e) \<and>
   (json_loads L input_data = Inr data \<and> test_example_transform L data = Inl e \<longrightarrow>
      transform_fn L [net, vocab, squadTransform] input_data ict oct = Inl e) \<and>
   (json_loads L input_data = Inr data \<and> test_example_transform L data = Inr examples \<and>
    get_all_results L net vocab squadTransform examples = Inl e \<longrightarrow>
      transform_fn L [net, vocab, squadTransform] input_data ict oct = Inl e) \<and>
   (json_loads L input_data = Inr data \<and> test_example_transform L data = Inr examples \<and>
    get_all_results L net vocab squadTransform examples = Inr all_results \<and>
    underscore_transform L squadTransform = Inl e \<longrightarrow>
      transform_fn L [net, vocab, squadTransform] input_data ict oct = Inl e) \<and>
   (json_loads L input_data = Inr data \<and> test_example_transform L data = Inr examples \<and>
    get_all_results L net vocab squadTransform examples = Inr all_results \<and>
    underscore_transform L squadTransform = Inr fn \<and>
    for_features L vocab all_results (lazy_iteration fn examples) [] = Inl e \<longrightarrow>
      transform_fn L [net, vocab, squadTransform] input_data ict oct = Inl e) \<and>
   (json_loads L input_data = Inr data \<and> test_example_transform L data = Inr examples \<and>
    get_all_results L net vocab squadTransform examples = Inr all_results \<and>
    underscore_transform L squadTransform = Inr fn \<and>
    for_features L vocab all_results (lazy_iteration fn examples) [] = Inr all_predictions \<and>
    json_dumps L all_predictions = Inl e \<longrightarrow>
      transform_fn L [net, vocab, squadTransform] input_data ict oct = Inl e) \<and>
   ((\<forall>y \<in> set pre. \<exists>fs. fn y = Inr fs) \<and>
    for_features L vocab all_results (lazy_iteration fn pre) acc = Inr acc' \<longrightarrow>
      (fn x = Inl e \<and> \<not> ends_iteration e \<longrightarrow>
         for_features L vocab all_results (lazy_iteration fn (pre @ x # post)) acc = Inl e) \<and>
      (fn x = Inl e \<and> ends_iteration e \<longrightarrow>
         for_features L vocab all_results (lazy_iteration fn (pre @ x # post)) acc = Inr acc') \<and>
      (fn x = Inr features \<and> loop_body L vocab all_results acc' features = Inl e \<longrightarrow>
         for_features L vocab all_results (lazy_iteration fn (pre @ x # post)) acc = Inl e)) \<and>
   loop_body L vocab all_results acc [] = Inl IndexError \<and>
   (results_getitem L all_results (example_id L feature) = Inl e \<longrightarrow>
      loop_body L vocab all_results acc (feature # rest) = Inl e) \<and>
   (results_getitem L all_results (example_id L feature) = Inr results \<and>
    BERTBasicTokenizer L vocab = Inl e \<longrightarrow>
      loop_body L vocab all_results acc (feature # rest) = Inl e) \<and>
   (results_getitem L all_results (example_id L feature) = Inr results \<and>
    BERTBasicTokenizer L vocab = Inr tokenizer \<and>
    predict L (feature # rest) results tokenizer = Inl e \<longrightarrow>
      loop_body L vocab all_results acc (feature # rest) = Inl e) \<and>
   (results_getitem L all_results (example_id L feature) = Inr results \<and>
    BERTBasicTokenizer L vocab = Inr tokenizer \<and>
    predict L (feature # rest) results tokenizer = Inr (prediction, nbest) \<and>
    length nbest < 3 \<longrightarrow>
      loop_body L vocab all_results acc (feature # rest) = Inl IndexError) \<and>
   (get_model L = Inl e \<longrightarrow> model_fn L params_path model_dir = Inl e) \<and>
   (get_model L = Inr (bert_model, vocab') \<and> BertForQA L bert_model = Inl e \<longrightarrow>
      model_fn L params_path model_dir = Inl e) \<and>
   (get_model L = Inr (bert_model, vocab') \<and> BertForQA L bert_model = Inr net_built \<and>
    load_parameters L net_built
      (if model_dir = [] then params_path else model_dir @ ''/'' @ params_path) = Inl e \<longrightarrow>
      model_fn L params_path model_dir = Inl e) \<and>
   (get_model L = Inr (bert_model, vocab') \<and> BertForQA L bert_model = Inr net_built \<and>
    load_parameters L net_built
      (if model_dir = [] then params_path else model_dir @ ''/'' @ params_path) = Inr net_loaded \<and>
    BERTTokenizer L vocab' = Inl e \<longrightarrow>
      model_fn L params_path model_dir = Inl e) \<and>
   (get_model L = Inr (bert_model, vocab') \<and> BertForQA L bert_model = Inr net_built \<and>
    load_parameters L net_built
      (if model_dir = [] then params_path else model_dir @ ''/'' @ params_path) = Inr net_loaded \<and>
    BERTTokenizer L vocab' = Inr tokenizer' \<and> SQuADTransform L tokenizer' = Inl e \<longrightarrow>
      model_fn L params_path model_dir = Inl e)"
proof -
  have t: "unpack3 model = Inl e \<longrightarrow> transform_fn L model input_data ict oct = Inl e"
    "json_loads L input_data = Inl e \<longrightarrow>
      transform_fn L [net, vocab, squadTransform] input_data ict oct = Inl e"
    "json_loads L input_data = Inr data \<and> test_example_transform L data = Inl e \<longrightarrow>
      transform_fn L [net, vocab, squadTransform] input_data ict oct = Inl e"
    "json_loads L input_data = Inr data \<and> test_example_transform L data = Inr examples \<and>
     get_all_results L net vocab squadTransform examples = Inl e \<longrightarrow>
      transform_fn L [net, vocab, squadTransform] input_data ict oct = Inl e"
    "json_loads L input_data = Inr data \<and> test_example_transform L data = Inr examples \<and>
     get_all_results L net vocab squadTransform examples = Inr all_results \<and>
     underscore_transform L squadTransform = Inl e \<longrightarrow>
      transform_fn L [net, vocab, squadTransform] input_data ict oct = Inl e"
    "json_loads L input_data = Inr data \<and> test_example_transform L data = Inr examples \<and>
     get_all_results L net vocab squadTransform examples = Inr all_results \<and>
     underscore_transform L squadTransform = Inr fn \<and>
     for_features L vocab all_results (lazy_iteration fn examples) [] = Inl e \<longrightarrow>
      transform_fn L [net, vocab, squadTransform] input_data ict oct = Inl e"
    "json_loads L input_data = Inr data \<and> test_example_transform L data = Inr examples \<and>
     get_all_results L net vocab squadTransform examples = Inr all_results \<and>
     underscore_transform L squadTransform = Inr fn \<and>
     for_features L vocab all_results (lazy_iteration fn examples) [] = Inr all_predictions \<and>
     json_dumps L all_predictions = Inl e \<longrightarrow>
      transform_fn L [net, vocab, squadTransform] input_data ict oct = Inl e"
    by (simp_all add: transform_fn_def)
  have l: "(fn x = Inl e \<and> \<not> ends_iteration e \<longrightarrow>
         for_features L vocab all_results (lazy_iteration fn (pre @ x # post)) acc = Inl e) \<and>
      (fn x = Inl e \<and> ends_iteration e \<longrightarrow>
         for_features L vocab all_results (lazy_iteration fn (pre @ x # post)) acc = Inr acc') \<and>
      (fn x = Inr features \<and> loop_body L vocab all_results acc' features = Inl e \<longrightarrow>
         for_features L vocab all_results (lazy_iteration fn (pre @ x # post)) acc = Inl e)"
    if "\<forall>y \<in> set pre. \<exists>fs. fn y = Inr fs"
      and "for_features L vocab all_results (lazy_iteration fn pre) acc = Inr acc'"
    using for_features_append [OF that(1), of L vocab all_results "x # post" acc] that(2)
    by simp
  have b: "loop_body L vocab all_results acc [] = Inl IndexError"
    "results_getitem L all_results (example_id L feature) = Inl e \<longrightarrow>
      loop_body L vocab all_results acc (feature # rest) = Inl e"
    "results_getitem L all_results (example_id L feature) = Inr results \<and>
     BERTBasicTokenizer L vocab = Inl e \<longrightarrow>
      loop_body L vocab all_results acc (feature # rest) = Inl e"
    "results_getitem L all_results (example_id L feature) = Inr results \<and>
     BERTBasicTokenizer L vocab = Inr tokenizer \<and>
     predict L (feature # rest) results tokenizer = Inl e \<longrightarrow>
      loop_body L vocab all_results acc (feature # rest) = Inl e"
    "results_getitem L all_results (example_id L feature) = Inr results \<and>
     BERTBasicTokenizer L vocab = Inr tokenizer \<and>
     predict L (feature # rest) results tokenizer = Inr (prediction, nbest) \<and>
     length nbest < 3 \<longrightarrow>
      loop_body L vocab all_results acc (feature # rest) = Inl IndexError"
    by (simp_all add: loop_body_def getitem_def nbest_prediction_eq)
  have m: "get_model L = Inl e \<longrightarrow> model_fn L params_path model_dir = Inl e"
    "get_model L = Inr (bert_model, vocab') \<and> BertForQA L bert_model = Inl e \<longrightarrow>
      model_fn L params_path model_dir = Inl e"
    "get_model L = Inr (bert_model, vocab') \<and> BertForQA L bert_model = Inr net_built \<and>
     load_parameters L net_built
       (if model_dir = [] then params_path else model_dir @ ''/'' @ params_path) = Inl e \<longrightarrow>
      model_fn L params_path model_dir = Inl e"
    "get_model L = Inr (bert_model, vocab') \<and> BertForQA L bert_model = Inr net_built \<and>
     load_parameters L net_built
       (if model_dir = [] then params_path else model_dir @ ''/'' @ params_path) = Inr net_loaded \<and>
     BERTTokenizer L vocab' = Inl e \<longrightarrow>
      model_fn L params_path model_dir = Inl e"
    "get_model L = Inr (bert_model, vocab') \<and> BertForQA L bert_model = Inr net_built \<and>
     load_parameters L net_built
       (if model_dir = [] then params_path else model_dir @ ''/'' @ params_path) = Inr net_loaded \<and>
     BERTTokenizer L vocab' = Inr tokenizer' \<and> SQuADTransform L tokenizer' = Inl e \<longrightarrow>
      model_fn L params_path model_dir = Inl e"
    by (simp_all add: model_fn_def)
  from l have l': "(\<forall>y \<in> set pre. \<exists>fs. fn y = Inr fs) \<and>
    for_features L vocab all_results (lazy_iteration fn pre) acc = Inr acc' \<longrightarrow>
      (fn x = Inl e \<and> \<not> ends_iteration e \<longrightarrow>
         for_features L vocab all_results (lazy_iteration fn (pre @ x # post)) acc = Inl e) \<and>
      (fn x = Inl e \<and> ends_iteration e \<longrightarrow>
         for_features L vocab all_results (lazy_iteration fn (pre @ x # post)) acc = Inr acc') \<and>
      (fn x = Inr features \<and> loop_body L vocab all_results acc' features = Inl e \<longrightarrow>
         for_features L vocab all_results (lazy_iteration fn (pre @ x # post)) acc = Inl e)"
    by (intro impI) (elim conjE)
  show ?thesis
    by (intro conjI t l' b m)
qed

theorem exceptions_propagate_witness:
  "transform_fn (demo_lib) [12, 1] ''[7]'' None None = Inl ValueError \<and>
   transform_fn (demo_lib) [12, 1, 4] ''{'' None None = Inl (Raised ''JSONDecodeError'') \<and>
   transform_fn (demo_lib \<lparr> test_example_transform := (\<lambda>data. Inl (Raised ''KeyError'')) \<rparr>) [12, 1, 4] ''[7]'' None None = Inl (Raised ''KeyError'') \<and>
   transform_fn (demo_lib) [12, 1, 5] ''[7]'' None None = Inl (Raised ''TypeError'') \<and>
   transform_fn (demo_lib \<lparr> underscore_transform := (\<lambda>squadTransform. Inl (Raised ''AttributeError'')) \<rparr>) [12, 1, 4] ''[7]'' None None = Inl (Raised ''AttributeError'') \<and>
   transform_fn (partial_lib) [12, 1, 4] ''[7, 9]'' None None = Inl (Raised ''KeyError'') \<and>
   transform_fn (demo_lib \<lparr> json_dumps := (\<lambda>items. Inl (Raised ''TypeError'')) \<rparr>) [12, 1, 4] ''[7]'' None None = Inl (Raised ''TypeError'') \<and>
   for_features partial_lib 1 0 (lazy_iteration partial_transform ([7] @ 9 # [7])) [] = Inl (Raised ''KeyError'') \<and>
   for_features partial_lib 1 0 (lazy_iteration partial_transform ([7] @ 8 # [7])) [] = Inr [(7, [''90.00% '' @ [CHR 0x09] @ '' a'', ''6.00% '' @ [CHR 0x09] @ '' b'', ''4.00% '' @ [CHR 0x09] @ '' c''])] \<and>
   for_features partial_lib 2 0 (lazy_iteration partial_transform ([] @ 7 # [8])) [] = Inl (Raised ''TypeError'') \<and>
   loop_body demo_lib 1 0 [] [] = Inl IndexError \<and>
   loop_body (demo_lib \<lparr> results_getitem := (\<lambda>all_results f_id. Inl (Raised ''KeyError'')) \<rparr>) 1 0 [] [7] = Inl (Raised ''KeyError'') \<and>
   loop_body demo_lib 2 0 [] [7] = Inl (Raised ''TypeError'') \<and>
   loop_body (demo_lib \<lparr> predict := (\<lambda>features results tokenizer. Inl (Raised ''MXNetError'')) \<rparr>) 1 0 [] [7] = Inl (Raised ''MXNetError'') \<and>
   loop_body (demo_lib \<lparr> predict := (\<lambda>features results tokenizer. Inr (''a'', [(''a'', 90)])) \<rparr>) 1 0 [] [7] = Inl IndexError \<and>
   model_fn (demo_lib \<lparr> get_model := Inl (Raised ''MXNetError'') \<rparr>) ''w.params'' [] = Inl (Raised ''MXNetError'') \<and>
   model_fn (demo_lib \<lparr> get_model := Inr (5, 1) \<rparr>) ''w.params'' [] = Inl (Raised ''TypeError'') \<and>
   model_fn (demo_lib) ''w.params'' ''/tmp'' = Inl (Raised ''FileNotFoundError'') \<and>
   model_fn (demo_lib \<lparr> get_model := Inr (0, 2) \<rparr>) ''w.params'' [] = Inl (Raised ''TypeError'') \<and>
   model_fn (demo_lib \<lparr> BERTTokenizer := (\<lambda>vocab. Inr 9) \<rparr>) ''w.params'' [] = Inl (Raised ''TypeError'')"
proof -
  have w1: "transform_fn (demo_lib) [12, 1] ''[7]'' None None = Inl ValueError"
    by (rule exceptions_propagate [where L = "demo_lib" and model = "[12, 1]" and input_data = "''[7]''" and e = "ValueError" and ict = "None" and oct = "None",
        THEN conjunct1, THEN mp])
       (simp_all add: transform_fn_def model_fn_def loop_body_def demo_lib_def partial_lib_def
           partial_transform_def ends_iteration_def getitem_def nbest_prediction_eq
           format_prediction_def unpack3_def)
  have w2: "transform_fn (demo_lib) [12, 1, 4] ''{'' None None = Inl (Raised ''JSONDecodeError'')"
    by (rule exceptions_propagate [where L = "demo_lib" and input_data = "''{''" and e = "Raised ''JSONDecodeError''" and net = "12" and vocab = "1" and squadTransform = "4" and ict = "None" and oct = "None",
        THEN conjunct2, THEN conjunct1, THEN mp])
       (simp_all add: transform_fn_def model_fn_def loop_body_def demo_lib_def partial_lib_def
           partial_transform_def ends_iteration_def getitem_def nbest_prediction_eq
           format_prediction_def unpack3_def)
  have w3: "transform_fn (demo_lib \<lparr> test_example_transform := (\<lambda>data. Inl (Raised ''KeyError'')) \<rparr>) [12, 1, 4] ''[7]'' None None = Inl (Raised ''KeyError'')"
    by (rule exceptions_propagate [where L = "demo_lib \<lparr> test_example_transform := (\<lambda>data. Inl (Raised ''KeyError'')) \<rparr>" and input_data = "''[7]''" and data = "[7]" and e = "Raised ''KeyError''" and net = "12" and vocab = "1" and squadTransform = "4" and ict = "None" and oct = "None",
        THEN conjunct2, THEN conjunct2, THEN conjunct1, THEN mp])
       (simp_all add: transform_fn_def model_fn_def loop_body_def demo_lib_def partial_lib_def
           partial_transform_def ends_iteration_def getitem_def nbest_prediction_eq
           format_prediction_def unpack3_def)
  have w4: "transform_fn (demo_lib) [12, 1, 5] ''[7]'' None None = Inl (Raised ''TypeError'')"
    by (rule exceptions_propagate [where L = "demo_lib" and input_data = "''[7]''" and data = "[7]" and examples = "[7]" and e = "Raised ''TypeError''" and net = "12" and vocab = "1" and squadTransform = "5" and ict = "None" and oct = "None",
        THEN conjunct2, THEN conjunct2, THEN conjunct2, THEN conjunct1, THEN mp])
       (simp_all add: transform_fn_def model_fn_def loop_body_def demo_lib_def partial_lib_def
           partial_transform_def ends_iteration_def getitem_def nbest_prediction_eq
           format_prediction_def unpack3_def)
  have w5: "transform_fn (demo_lib \<lparr> underscore_transform := (\<lambda>squadTransform. Inl (Raised ''AttributeError'')) \<rparr>) [12, 1, 4] ''[7]'' None None = Inl (Raised ''AttributeError'')"
    by (rule exceptions_propagate [where L = "demo_lib \<lparr> underscore_transform := (\<lambda>squadTransform. Inl (Raised ''AttributeError'')) \<rparr>" and input_data = "''[7]''" and data = "[7]" and examples = "[7]" and all_results = "0" and e = "Raised ''AttributeError''" and net = "12" and vocab = "1" and squadTransform = "4" and ict = "None" and oct = "None",
        THEN conjunct2, THEN conjunct2, THEN conjunct2, THEN conjunct2, THEN conjunct1, THEN mp])
       (simp_all add: transform_fn_def model_fn_def loop_body_def demo_lib_def partial_lib_def
           partial_transform_def ends_iteration_def getitem_def nbest_prediction_eq
           format_prediction_def unpack3_def)
  have w6: "transform_fn (partial_lib) [12, 1, 4] ''[7, 9]'' None None = Inl (Raised ''KeyError'')"
    by (rule exceptions_propagate [where L = "partial_lib" and input_data = "''[7, 9]''" and data = "[7, 9]" and examples = "[7, 9]" and all_results = "0" and fn = "partial_transform" and e = "Raised ''KeyError''" and net = "12" and vocab = "1" and squadTransform = "4" and ict = "None" and oct = "None",
        THEN conjunct2, THEN conjunct2, THEN conjunct2, THEN conjunct2, THEN conjunct2, THEN conjunct1, THEN mp])
       (simp_all add: transform_fn_def model_fn_def loop_body_def demo_lib_def partial_lib_def
           partial_transform_def ends_iteration_def getitem_def nbest_prediction_eq
           format_prediction_def unpack3_def)
  have w7: "transform_fn (demo_lib \<lparr> json_dumps := (\<lambda>items. Inl (Raised ''TypeError'')) \<rparr>) [12, 1, 4] ''[7]'' None None = Inl (Raised ''TypeError'')"
    by (rule exceptions_propagate [where L = "demo_lib \<lparr> json_dumps := (\<lambda>items. Inl (Raised ''TypeError'')) \<rparr>" and input_data = "''[7]''" and data = "[7]" and examples = "[7]" and all_results = "0" and fn = "\<lambda>x. Inr [x]" and all_predictions = "[(7, [''90.00% '' @ [CHR 0x09] @ '' a'', ''6.00% '' @ [CHR 0x09] @ '' b'', ''4.00% '' @ [CHR 0x09] @ '' c''])]" and e = "Raised ''TypeError''" and net = "12" and vocab = "1" and squadTransform = "4" and ict = "None" and oct = "None",
        THEN conjunct2, THEN conjunct2, THEN conjunct2, THEN conjunct2, THEN conjunct2, THEN conjunct2, THEN conjunct1, THEN mp])
       (simp_all add: transform_fn_def model_fn_def loop_body_def demo_lib_def partial_lib_def
           partial_transform_def ends_iteration_def getitem_def nbest_prediction_eq
           format_prediction_def unpack3_def)
  have w8: "for_features partial_lib 1 0 (lazy_iteration partial_transform ([7] @ 9 # [7])) [] = Inl (Raised ''KeyError'')"
    by (rule exceptions_propagate [where x = "9" and e = "Raised ''KeyError''" and L = "partial_lib" and vocab = "1" and all_results = "0" and fn = "partial_transform" and pre = "[7]" and acc = "[]" and acc' = "[(7, [''90.00% '' @ [CHR 0x09] @ '' a'', ''6.00% '' @ [CHR 0x09] @ '' b'', ''4.00% '' @ [CHR 0x09] @ '' c''])]" and post = "[7]",
        THEN conjunct2, THEN conjunct2, THEN conjunct2, THEN conjunct2, THEN conjunct2, THEN conjunct2, THEN conjunct2, THEN conjunct1, THEN mp, THEN conjunct1, THEN mp])
       (simp_all add: transform_fn_def model_fn_def loop_body_def demo_lib_def partial_lib_def
           partial_transform_def ends_iteration_def getitem_def nbest_prediction_eq
           format_prediction_def unpack3_def)
  have w9: "for_features partial_lib 1 0 (lazy_iteration partial_transform ([7] @ 8 # [7])) [] = Inr [(7, [''90.00% '' @ [CHR 0x09] @ '' a'', ''6.00% '' @ [CHR 0x09] @ '' b'', ''4.00% '' @ [CHR 0x09] @ '' c''])]"
    by (rule exceptions_propagate [where x = "8" and e = "IndexError" and L = "partial_lib" and vocab = "1" and all_results = "0" and fn = "partial_transform" and pre = "[7]" and acc = "[]" and acc' = "[(7, [''90.00% '' @ [CHR 0x09] @ '' a'', ''6.00% '' @ [CHR 0x09] @ '' b'', ''4.00% '' @ [CHR 0x09] @ '' c''])]" and post = "[7]",
        THEN conjunct2, THEN conjunct2, THEN conjunct2, THEN conjunct2, THEN conjunct2, THEN conjunct2, THEN conjunct2, THEN conjunct1, THEN mp, THEN conjunct2, THEN conjunct1, THEN mp])
       (simp_all add: transform_fn_def model_fn_def loop_body_def demo_lib_def partial_lib_def
           partial_transform_def ends_iteration_def getitem_def nbest_prediction_eq
           format_prediction_def unpack3_def)
  have w10: "for_features partial_lib 2 0 (lazy_iteration partial_transform ([] @ 7 # [8])) [] = Inl (Raised ''TypeError'')"
    by (rule exceptions_propagate [where L = "partial_lib" and vocab = "2" and all_results = "0" and fn = "partial_transform" and pre = "[]" and acc = "[]" and acc' = "[]" and post = "[8]" and x = "7" and features = "[7]" and e = "Raised ''TypeError''",
        THEN conjunct2, THEN conjunct2, THEN conjunct2, THEN conjunct2, THEN conjunct2, THEN conjunct2, THEN conjunct2, THEN conjunct1, THEN mp, THEN conjunct2, THEN conjunct2, THEN mp])
       (simp_all add: transform_fn_def model_fn_def loop_body_def demo_lib_def partial_lib_def
           partial_transform_def ends_iteration_def getitem_def nbest_prediction_eq
           format_prediction_def unpack3_def)
  have w11: "loop_body demo_lib 1 0 [] [] = Inl IndexError"
    by (rule exceptions_propagate [where L = "demo_lib" and vocab = "1" and all_results = "0" and acc = "[]",
        THEN conjunct2, THEN conjunct2, THEN conjunct2, THEN conjunct2, THEN conjunct2, THEN conjunct2, THEN conjunct2, THEN conjunct2, THEN conjunct1])
  have w12: "loop_body (demo_lib \<lparr> results_getitem := (\<lambda>all_results f_id. Inl (Raised ''KeyError'')) \<rparr>) 1 0 [] [7] = Inl (Raised ''KeyError'')"
    by (rule exceptions_propagate [where L = "demo_lib \<lparr> results_getitem := (\<lambda>all_results f_id. Inl (Raised ''KeyError'')) \<rparr>" and vocab = "1" and e = "Raised ''KeyError''" and all_results = "0" and acc = "[]" and feature = "7" and rest = "[]",
        THEN conjunct2, THEN conjunct2, THEN conjunct2, THEN conjunct2, THEN conjunct2, THEN conjunct2, THEN conjunct2, THEN conjunct2, THEN conjunct2, THEN conjunct1, THEN mp])
       (simp_all add: transform_fn_def model_fn_def loop_body_def demo_lib_def partial_lib_def
           partial_transform_def ends_iteration_def getitem_def nbest_prediction_eq
           format_prediction_def unpack3_def)
  have w13: "loop_body demo_lib 2 0 [] [7] = Inl (Raised ''TypeError'')"
    by (rule exceptions_propagate [where L = "demo_lib" and vocab = "2" and results = "7" and e = "Raised ''TypeError''" and all_results = "0" and acc = "[]" and feature = "7" and rest = "[]",
        THEN conjunct2, THEN conjunct2, THEN conjunct2, THEN conjunct2, THEN conjunct2, THEN conjunct2, THEN conjunct2, THEN conjunct2, THEN conjunct2, THEN conjunct2, THEN conjunct1, THEN mp])
       (simp_all add: transform_fn_def model_fn_def loop_body_def demo_lib_def partial_lib_def
           partial_transform_def ends_iteration_def getitem_def nbest_prediction_eq
           format_prediction_def unpack3_def)
  have w14: "loop_body (demo_lib \<lparr> predict := (\<lambda>features results tokenizer. Inl (Raised ''MXNetError'')) \<rparr>) 1 0 [] [7] = Inl (Raised ''MXNetError'')"
    by (rule exceptions_propagate [where L = "demo_lib \<lparr> predict := (\<lambda>features results tokenizer. Inl (Raised ''MXNetError'')) \<rparr>" and vocab = "1" and results = "7" and tokenizer = "5" and e = "Raised ''MXNetError''" and all_results = "0" and acc = "[]" and feature = "7" and rest = "[]",
        THEN conjunct2, THEN conjunct2, THEN conjunct2, THEN conjunct2, THEN conjunct2, THEN conjunct2, THEN conjunct2, THEN conjunct2, THEN conjunct2, THEN conjunct2, THEN conjunct2, THEN conjunct1, THEN mp])
       (simp_all add: transform_fn_def model_fn_def loop_body_def demo_lib_def partial_lib_def
           partial_transform_def ends_iteration_def getitem_def nbest_prediction_eq
           format_prediction_def unpack3_def)
  have w15: "loop_body (demo_lib \<lparr> predict := (\<lambda>features results tokenizer. Inr (''a'', [(''a'', 90)])) \<rparr>) 1 0 [] [7] = Inl IndexError"
    by (rule exceptions_propagate [where L = "demo_lib \<lparr> predict := (\<lambda>features results tokenizer. Inr (''a'', [(''a'', 90)])) \<rparr>" and vocab = "1" and results = "7" and tokenizer = "5" and prediction = "''a''" and nbest = "[(''a'', 90)]" and all_results = "0" and acc = "[]" and feature = "7" and rest = "[]",
        THEN conjunct2, THEN conjunct2, THEN conjunct2, THEN conjunct2, THEN conjunct2, THEN conjunct2, THEN conjunct2, THEN conjunct2, THEN conjunct2, THEN conjunct2, THEN conjunct2, THEN conjunct2, THEN conjunct1, THEN mp])
       (simp_all add: transform_fn_def model_fn_def loop_body_def demo_lib_def partial_lib_def
           partial_transform_def ends_iteration_def getitem_def nbest_prediction_eq
           format_prediction_def unpack3_def)
  have w16: "model_fn (demo_lib \<lparr> get_model := Inl (Raised ''MXNetError'') \<rparr>) ''w.params'' [] = Inl (Raised ''MXNetError'')"
    by (rule exceptions_propagate [where L = "demo_lib \<lparr> get_model := Inl (Raised ''MXNetError'') \<rparr>" and params_path = "''w.params''" and model_dir = "[]" and e = "Raised ''MXNetError''",
        THEN conjunct2, THEN conjunct2, THEN conjunct2, THEN conjunct2, THEN conjunct2, THEN conjunct2, THEN conjunct2, THEN conjunct2, THEN conjunct2, THEN conjunct2, THEN conjunct2, THEN conjunct2, THEN conjunct2, THEN conjunct1, THEN mp])
       (simp_all add: transform_fn_def model_fn_def loop_body_def demo_lib_def partial_lib_def
           partial_transform_def ends_iteration_def getitem_def nbest_prediction_eq
           format_prediction_def unpack3_def)
  have w17: "model_fn (demo_lib \<lparr> get_model := Inr (5, 1) \<rparr>) ''w.params'' [] = Inl (Raised ''TypeError'')"
    by (rule exceptions_propagate [where L = "demo_lib \<lparr> get_model := Inr (5, 1) \<rparr>" and params_path = "''w.params''" and model_dir = "[]" and bert_model = "5" and vocab' = "1" and e = "Raised ''TypeError''",
        THEN conjunct2, THEN conjunct2, THEN conjunct2, THEN conjunct2, THEN conjunct2, THEN conjunct2, THEN conjunct2, THEN conjunct2, THEN conjunct2, THEN conjunct2, THEN conjunct2, THEN conjunct2, THEN conjunct2, THEN conjunct2, THEN conjunct1, THEN mp])
       (simp_all add: transform_fn_def model_fn_def loop_body_def demo_lib_def partial_lib_def
           partial_transform_def ends_iteration_def getitem_def nbest_prediction_eq
           format_prediction_def unpack3_def)
  have w18: "model_fn (demo_lib) ''w.params'' ''/tmp'' = Inl (Raised ''FileNotFoundError'')"
    by (rule exceptions_propagate [where L = "demo_lib" and params_path = "''w.params''" and model_dir = "''/tmp''" and bert_model = "0" and vocab' = "1" and net_built = "2" and e = "Raised ''FileNotFoundError''",
        THEN conjunct2, THEN conjunct2, THEN conjunct2, THEN conjunct2, THEN conjunct2, THEN conjunct2, THEN conjunct2, THEN conjunct2, THEN conjunct2, THEN conjunct2, THEN conjunct2, THEN conjunct2, THEN conjunct2, THEN conjunct2, THEN conjunct2, THEN conjunct1, THEN mp])
       (simp_all add: transform_fn_def model_fn_def loop_body_def demo_lib_def partial_lib_def
           partial_transform_def ends_iteration_def getitem_def nbest_prediction_eq
           format_prediction_def unpack3_def)
  have w19: "model_fn (demo_lib \<lparr> get_model := Inr (0, 2) \<rparr>) ''w.params'' [] = Inl (Raised ''TypeError'')"
    by (rule exceptions_propagate [where L = "demo_lib \<lparr> get_model := Inr (0, 2) \<rparr>" and params_path = "''w.params''" and model_dir = "[]" and bert_model = "0" and vocab' = "2" and net_built = "2" and net_loaded = "12" and e = "Raised ''TypeError''",
        THEN conjunct2, THEN conjunct2, THEN conjunct2, THEN conjunct2, THEN conjunct2, THEN conjunct2, THEN conjunct2, THEN conjunct2, THEN conjunct2, THEN conjunct2, THEN conjunct2, THEN conjunct2, THEN conjunct2, THEN conjunct2, THEN conjunct2, THEN conjunct2, THEN conjunct1, THEN mp])
       (simp_all add: transform_fn_def model_fn_def loop_body_def demo_lib_def partial_lib_def
           partial_transform_def ends_iteration_def getitem_def nbest_prediction_eq
           format_prediction_def unpack3_def)
  have w20: "model_fn (demo_lib \<lparr> BERTTokenizer := (\<lambda>vocab. Inr 9) \<rparr>) ''w.params'' [] = Inl (Raised ''TypeError'')"
    by (rule exceptions_propagate [where L = "demo_lib \<lparr> BERTTokenizer := (\<lambda>vocab. Inr 9) \<rparr>" and params_path = "''w.params''" and model_dir = "[]" and bert_model = "0" and vocab' = "1" and tokenizer' = "9" and net_built = "2" and net_loaded = "12" and e = "Raised ''TypeError''",
        THEN conjunct2, THEN conjunct2, THEN conjunct2, THEN conjunct2, THEN conjunct2, THEN conjunct2, THEN conjunct2, THEN conjunct2, THEN conjunct2, THEN conjunct2, THEN conjunct2, THEN conjunct2, THEN conjunct2, THEN conjunct2, THEN conjunct2, THEN conjunct2, THEN conjunct2, THEN mp])
       (simp_all add: transform_fn_def model_fn_def loop_body_def demo_lib_def partial_lib_def
           partial_transform_def ends_iteration_def getitem_def nbest_prediction_eq
           format_prediction_def unpack3_def)
  show ?thesis
    by (intro conjI w1 w2 w3 w4 w5 w6 w7 w8 w9 w10 w11 w12 w13 w14 w15 w16 w17 w18 w19 w20)
qed

text \<open>
  The loop does end on an \<^verbatim>\<open>IndexError\<close> of the transform: in a request with the
  examples 7 and 8, where \<^verbatim>\<open>_transform\<close> raises \<^verbatim>\<open>IndexError\<close> on 8, \<^verbatim>\<open>transform_fn\<close>
  returns the predictions of 7 and no exception leaves it.
\<close>

theorem exceptions_propagate_counterexample:
  "json_loads partial_lib ''[7, 8]'' = Inr [7, 8] \<and>
   test_example_transform partial_lib [7, 8] = Inr [7, 8] \<and>
   underscore_transform partial_lib 4 = Inr partial_transform \<and>
   partial_transform 8 = Inl IndexError \<and>
   transform_fn partial_lib [12, 1, 4] ''[7, 8]'' None None =
     Inr (''90.00% '' @ [CHR 0x09] @ '' a'' @ ''6.00% '' @ [CHR 0x09] @ '' b'' @
          ''4.00% '' @ [CHR 0x09] @ '' c'', None)"
  by (simp add: transform_fn_def model_fn_def loop_body_def demo_lib_def partial_lib_def
           partial_transform_def ends_iteration_def getitem_def nbest_prediction_eq
           format_prediction_def unpack3_def)

text \<open>
  C3. When the five paths the cell adds name regular files, the archiving cell runs
  to its end and the archive holds exactly those five members, in the order of the
  cell.
\<close>

theorem archive_contents:
  assumes "fs ''code/serve.py'' = Inr File"
    and "fs ''bert/data/qa.py'' = Inr File"
    and "fs ''bert_qa_evaluate.py'' = Inr File"
    and "fs ''bert_qa-7eb11865.params'' = Inr File"
    and "fs ''vocab.json'' = Inr File"
  shows "archive_cell fs =
           ([''code/serve.py'', ''bert/data/qa.py'', ''bert_qa_evaluate.py'',
             ''bert_qa-7eb11865.params'', ''vocab.json''], None)"
  using assms by (simp add: archive_cell_def seq_def tar_add_def)

theorem archive_contents_witness:
  "demo_fs ''code/serve.py'' = Inr File \<and>
   demo_fs ''bert/data/qa.py'' = Inr File \<and>
   demo_fs ''bert_qa_evaluate.py'' = Inr File \<and>
   demo_fs ''bert_qa-7eb11865.params'' = Inr File \<and>
   demo_fs ''vocab.json'' = Inr File \<and>
   archive_cell demo_fs =
     ([''code/serve.py'', ''bert/data/qa.py'', ''bert_qa_evaluate.py'',
       ''bert_qa-7eb11865.params'', ''vocab.json''], None)"
proof -
  have f: "demo_fs ''code/serve.py'' = Inr File"
    "demo_fs ''bert/data/qa.py'' = Inr File"
    "demo_fs ''bert_qa_evaluate.py'' = Inr File"
    "demo_fs ''bert_qa-7eb11865.params'' = Inr File"
    "demo_fs ''vocab.json'' = Inr File"
    by (simp_all add: demo_fs_def)
  from archive_contents [OF f] f show ?thesis by simp
qed

text \<open>
  C4. Every value \<^verbatim>\<open>model_fn\<close> returns is the tuple of the network as
  \<^verbatim>\<open>load_parameters\<close> left it, the vocabulary that \<^verbatim>\<open>get_model\<close> returned and the
  transform built on the tokenizer of that vocabulary, in this order. The unpacking at
  the head of \<^verbatim>\<open>transform_fn\<close> succeeds on it, and \<^verbatim>\<open>transform_fn\<close> called with it is the
  rest of its body run on these three objects: the network, the vocabulary and the
  transform go to \<^verbatim>\<open>get_all_results\<close>, the transform gives the function of the
  dataset, and the vocabulary goes to the loop. A tuple of another length is refused
  with \<^verbatim>\<open>ValueError\<close>.
\<close>

theorem model_fn_transform_fn_compatible:
  assumes "model_fn L params_path model_dir = Inr model"
  shows "\<exists>bert_model vocab net net' tokenizer transform.
           get_model L = Inr (bert_model, vocab) \<and>
           BertForQA L bert_model = Inr net \<and>
           load_parameters L net
             (if model_dir = [] then params_path else model_dir @ ''/'' @ params_path) = Inr net' \<and>
           BERTTokenizer L vocab = Inr tokenizer \<and>
           SQuADTransform L tokenizer = Inr transform \<and>
           model = [net', vocab, transform] \<and>
           unpack3 model = Inr (net', vocab, transform) \<and>
           (\<forall>input_data ict oct.
              transform_fn L model input_data ict oct =
                and_then (json_loads L input_data) (\<lambda>data.
                and_then (test_example_transform L data) (\<lambda>examples.
                and_then (get_all_results L net' vocab transform examples) (\<lambda>all_results.
                and_then (underscore_transform L transform) (\<lambda>fn.
                and_then (for_features L vocab all_results (lazy_iteration fn examples) [])
                  (\<lambda>all_predictions.
                and_then (json_dumps L all_predictions) (\<lambda>response_body.
                Inr (response_body, oct)))))))) \<and>
           (\<forall>input_data e ict oct. json_loads L input_data = Inl e \<longrightarrow>
              transform_fn L model input_data ict oct = Inl e) \<and>
           (\<forall>other input_data ict oct. length other \<noteq> 3 \<longrightarrow>
              transform_fn L other input_data ict oct = Inl ValueError)"
proof -
  from model_fn_Inr [OF assms] obtain bert_model vocab net net' tokenizer transform where
    calls: "get_model L = Inr (bert_model, vocab)"
      "BertForQA L bert_model = Inr net"
      "load_parameters L net
         (if model_dir = [] then params_path else model_dir @ ''/'' @ params_path) = Inr net'"
      "BERTTokenizer L vocab = Inr tokenizer"
      "SQuADTransform L tokenizer = Inr transform"
    and m: "model = [net', vocab, transform]"
    by blast
  have unpack: "unpack3 model = Inr (net', vocab, transform)"
    unfolding m by simp
  have body: "\<forall>input_data ict oct.
      transform_fn L model input_data ict oct =
        and_then (json_loads L input_data) (\<lambda>data.
        and_then (test_example_transform L data) (\<lambda>examples.
        and_then (get_all_results L net' vocab transform examples) (\<lambda>all_results.
        and_then (underscore_transform L transform) (\<lambda>fn.
        and_then (for_features L vocab all_results (lazy_iteration fn examples) [])
          (\<lambda>all_predictions.
        and_then (json_dumps L all_predictions) (\<lambda>response_body.
        Inr (response_body, oct)))))))"
    unfolding m by (simp add: transform_fn_def Let_def)
  have loads: "\<forall>input_data e ict oct. json_loads L input_data = Inl e \<longrightarrow>
      transform_fn L model input_data ict oct = Inl e"
    unfolding m by (simp add: transform_fn_def)
  have refused: "\<forall>other input_data ict oct. length other \<noteq> 3 \<longrightarrow>
      transform_fn L other input_data ict oct = Inl ValueError"
  proof (intro allI impI)
    fix other :: "'a list" and input_data ict oct
    assume "length other \<noteq> 3"
    then have "unpack3 other = Inl ValueError"
      by (auto simp: unpack3_def split: list.splits)
    then show "transform_fn L other input_data ict oct = Inl ValueError"
      by (simp add: transform_fn_def)
  qed
  show ?thesis
    by (rule exI [of _ bert_model], rule exI [of _ vocab], rule exI [of _ net],
        rule exI [of _ net'], rule exI [of _ tokenizer], rule exI [of _ transform])
       (intro conjI calls m unpack body loads refused)
qed

theorem model_fn_transform_fn_compatible_witness:
  "model_fn demo_lib ''w.params'' [] = Inr [12, 1, 4] \<and>
   get_model demo_lib = Inr (0, 1) \<and>
   load_parameters demo_lib 2 ''w.params'' = Inr 12 \<and>
   SQuADTransform demo_lib 3 = Inr 4 \<and>
   unpack3 [12, 1, 4 :: nat] = Inr (12, 1, 4) \<and>
   transform_fn demo_lib [12, 1, 4] ''[7]'' None None =
     Inr (''90.00% '' @ [CHR 0x09] @ '' a6.00% '' @ [CHR 0x09] @ '' b4.00% '' @ [CHR 0x09] @ '' c'',
          None) \<and>
   transform_fn demo_lib [4, 12, 1] ''[7]'' None None = Inl (Raised ''TypeError'') \<and>
   transform_fn demo_lib [12, 1] ''[7]'' None None = Inl ValueError \<and>
   json_loads demo_lib ''{'' = Inl (Raised ''JSONDecodeError'') \<and>
   transform_fn demo_lib [12, 1, 4] ''{'' None None = Inl (Raised ''JSONDecodeError'')"
proof -
  have m: "model_fn demo_lib ''w.params'' [] = Inr [12, 1, 4]"
    by (simp add: model_fn_def demo_lib_def)
  have calls: "get_model demo_lib = Inr (0, 1)" "load_parameters demo_lib 2 ''w.params'' = Inr 12"
    "SQuADTransform demo_lib 3 = Inr 4" "unpack3 [12, 1, 4 :: nat] = Inr (12, 1, 4)"
    by (simp_all add: demo_lib_def)
  have j: "json_loads demo_lib ''{'' = Inl (Raised ''JSONDecodeError'')"
    by (simp add: demo_lib_def)
  have swapped: "transform_fn demo_lib [4, 12, 1] ''[7]'' None None = Inl (Raised ''TypeError'')"
    by (simp add: transform_fn_def demo_lib_def)
  from model_fn_transform_fn_compatible [OF m]
  obtain net' vocab transform where
    handle: "[12, 1, 4] = [net', vocab, transform]" and
    body: "\<forall>input_data ict oct.
      transform_fn demo_lib [12, 1, 4] input_data ict oct =
        and_then (json_loads demo_lib input_data) (\<lambda>data.
        and_then (test_example_transform demo_lib data) (\<lambda>examples.
        and_then (get_all_results demo_lib net' vocab transform examples) (\<lambda>all_results.
        and_then (underscore_transform demo_lib transform) (\<lambda>fn.
        and_then (for_features demo_lib vocab all_results (lazy_iteration fn examples) [])
          (\<lambda>all_predictions.
        and_then (json_dumps demo_lib all_predictions) (\<lambda>response_body.
        Inr (response_body, oct)))))))" and
    loads: "\<forall>input_data e ict oct. json_loads demo_lib input_data = Inl e \<longrightarrow>
      transform_fn demo_lib [12, 1, 4] input_data ict oct = Inl e" and
    refused: "\<forall>other input_data ict oct. length other \<noteq> 3 \<longrightarrow>
      transform_fn demo_lib other input_data ict oct = Inl ValueError"
    by blast
  from handle have h: "net' = 12" "vocab = 1" "transform = 4" by simp_all
  have run: "transform_fn demo_lib [12, 1, 4] ''[7]'' None None =
     Inr (''90.00% '' @ [CHR 0x09] @ '' a6.00% '' @ [CHR 0x09] @ '' b4.00% '' @ [CHR 0x09] @ '' c'',
          None)"
    unfolding body [rule_format] h
    by (simp add: demo_lib_def loop_body_def nbest_prediction_eq format_prediction_def getitem_def)
  have short: "transform_fn demo_lib [12, 1] ''[7]'' None None = Inl ValueError"
    using refused by simp
  have bad: "transform_fn demo_lib [12, 1, 4] ''{'' None None = Inl (Raised ''JSONDecodeError'')"
    using loads j by blast
  from m calls run swapped short j bad show ?thesis by simp
qed

text \<open>
  C5. Every prediction string of the dictionary that \<^verbatim>\<open>transform_fn\<close> serialises is the
  format \<^verbatim>\<open>'%.2f%% \t %s'\<close> applied to the probability times 100 and the text of an
  entry of the n-best list that a call of \<^verbatim>\<open>predict\<close> returned.
\<close>

theorem predictions_are_formatted_nbest_entries:
  assumes "transform_fn L model input_data input_content_type output_content_type =
             Inr (response_body, ct)"
  shows "\<exists>all_predictions.
           json_dumps L all_predictions = Inr response_body \<and>
           (\<forall>(f_id, preds) \<in> set all_predictions.
              \<exists>features results tokenizer prediction nbest.
                predict L features results tokenizer = Inr (prediction, nbest) \<and>
                (\<forall>s \<in> set preds. \<exists>(text, probability) \<in> set nbest.
                   s = fmt_2f L (times100 L probability) @ ''% '' @ [CHR 0x09] @ '' '' @ text))"
proof -
  from transform_fn_Inr [OF assms]
  obtain vocab squadTransform examples all_results fn all_predictions where
    fn: "underscore_transform L squadTransform = Inr fn" and
    run: "for_features L vocab all_results (lazy_iteration fn examples) [] =
            Inr all_predictions" and
    dumps: "json_dumps L all_predictions = Inr response_body"
    by blast
  have "\<forall>(f_id, preds) \<in> set all_predictions.
      \<exists>features results tokenizer prediction nbest.
        predict L features results tokenizer = Inr (prediction, nbest) \<and>
        (\<forall>s \<in> set preds. \<exists>(text, probability) \<in> set nbest.
           s = fmt_2f L (times100 L probability) @ ''% '' @ [CHR 0x09] @ '' '' @ text)"
  proof (rule for_features_invariant [OF _ run])
    fix features feature0 rest results tokenizer prediction nbest preds
    assume p: "predict L features results tokenizer = Inr (prediction, nbest)"
      and n: "nbest_prediction L nbest = Inr preds"
    from n have preds: "preds = map (format_prediction L) (take 3 nbest)"
      by (simp add: nbest_prediction_eq split: if_splits)
    have "\<forall>s \<in> set preds. \<exists>(text, probability) \<in> set nbest.
        s = fmt_2f L (times100 L probability) @ ''% '' @ [CHR 0x09] @ '' '' @ text"
    proof
      fix s assume "s \<in> set preds"
      then obtain entry where e: "entry \<in> set (take 3 nbest)" and s: "s = format_prediction L entry"
        unfolding preds by auto
      from e have "entry \<in> set nbest" by (rule in_set_takeD)
      with s show "\<exists>(text, probability) \<in> set nbest.
        s = fmt_2f L (times100 L probability) @ ''% '' @ [CHR 0x09] @ '' '' @ text"
        by (auto simp: format_prediction_def intro!: bexI [of _ entry] split: prod.splits)
    qed
    with p show "\<exists>features results tokenizer prediction nbest.
        predict L features results tokenizer = Inr (prediction, nbest) \<and>
        (\<forall>s \<in> set preds. \<exists>(text, probability) \<in> set nbest.
           s = fmt_2f L (times100 L probability) @ ''% '' @ [CHR 0x09] @ '' '' @ text)"
      by blast
  qed simp
  with dumps show ?thesis by blast
qed

theorem predictions_are_formatted_nbest_entries_witness:
  "transform_fn demo_lib [12, 1, 4] ''[7]'' None None =
     Inr (''90.00% '' @ [CHR 0x09] @ '' a6.00% '' @ [CHR 0x09] @ '' b4.00% '' @ [CHR 0x09] @ '' c'',
          None) \<and>
   (\<exists>all_predictions.
      json_dumps demo_lib all_predictions =
        Inr (''90.00% '' @ [CHR 0x09] @ '' a6.00% '' @ [CHR 0x09] @ '' b4.00% '' @ [CHR 0x09] @ '' c'') \<and>
      (\<forall>(f_id, preds) \<in> set all_predictions.
         \<exists>features results tokenizer prediction nbest.
           predict demo_lib features results tokenizer = Inr (prediction, nbest) \<and>
           (\<forall>s \<in> set preds. \<exists>(text, probability) \<in> set nbest.
              s = fmt_2f demo_lib (times100 demo_lib probability) @ ''% '' @ [CHR 0x09] @ '' '' @ text)))"
proof -
  have run: "transform_fn demo_lib [12, 1, 4] ''[7]'' None None =
     Inr (''90.00% '' @ [CHR 0x09] @ '' a6.00% '' @ [CHR 0x09] @ '' b4.00% '' @ [CHR 0x09] @ '' c'',
          None)"
    by (simp add: transform_fn_def demo_lib_def loop_body_def nbest_prediction_eq
        format_prediction_def getitem_def)
  from predictions_are_formatted_nbest_entries [OF run] run show ?thesis by blast
qed



text \<open>
  C7. The response body, and the exception when there is one, do not depend on the two
  content-type arguments; the second component of a result is the
  \<^verbatim>\<open>output_content_type\<close> argument.
\<close>

theorem transform_fn_ignores_content_types:
  "map_sum id fst (transform_fn L model input_data ict oct) =
     map_sum id fst (transform_fn L model input_data ict' oct') \<and>
   (\<forall>response_body ct. transform_fn L model input_data ict oct = Inr (response_body, ct) \<longrightarrow>
      ct = oct)"
proof -
  have "map_sum id fst (and_then r (\<lambda>b. Inr (b, c))) = map_sum id fst (and_then r (\<lambda>b. Inr (b, c')))"
    for r :: "exn + string" and c c' :: "string option"
    by (cases r) simp_all
  then have "map_sum id fst (transform_fn L model input_data ict oct) =
     map_sum id fst (transform_fn L model input_data ict' oct')"
    by (auto simp: transform_fn_def and_then_def Let_def split: sum.splits prod.splits)
  moreover have "\<forall>response_body ct.
      transform_fn L model input_data ict oct = Inr (response_body, ct) \<longrightarrow> ct = oct"
    using transform_fn_Inr by blast
  ultimately show ?thesis by blast
qed

theorem transform_fn_ignores_content_types_witness:
  "map_sum id fst (transform_fn demo_lib [12, 1, 4] ''[7]'' None (Some ''application/json'')) =
     map_sum id fst (transform_fn demo_lib [12, 1, 4] ''[7]'' (Some ''text/csv'') None) \<and>
   transform_fn demo_lib [12, 1, 4] ''[7]'' None (Some ''application/json'') =
     Inr (''90.00% '' @ [CHR 0x09] @ '' a6.00% '' @ [CHR 0x09] @ '' b4.00% '' @ [CHR 0x09] @ '' c'',
          Some ''application/json'')"
proof -
  have run: "transform_fn demo_lib [12, 1, 4] ''[7]'' None (Some ''application/json'') =
     Inr (''90.00% '' @ [CHR 0x09] @ '' a6.00% '' @ [CHR 0x09] @ '' b4.00% '' @ [CHR 0x09] @ '' c'',
          Some ''application/json'')"
    by (simp add: transform_fn_def demo_lib_def loop_body_def nbest_prediction_eq
        format_prediction_def getitem_def)
  from transform_fn_ignores_content_types
    [of demo_lib "[12, 1, 4]" "''[7]''" None "Some ''application/json''" "Some ''text/csv''" None]
  show ?thesis using run by blast
qed

text \<open>
  C8. With the calls before and after the loading of the weights returning, the outcome
  of \<^verbatim>\<open>model_fn\<close> is the outcome of \<^verbatim>\<open>load_parameters\<close> on \<open>params_path\<close> itself when
  \<open>model_dir\<close> is the empty string, and on \<open>model_dir\<close>, a slash and \<open>params_path\<close>
  when \<open>model_dir\<close> is not empty.
\<close>

theorem model_fn_weights_path:
  assumes "get_model L = Inr (bert_model, vocab)"
    and "BertForQA L bert_model = Inr net"
    and "BERTTokenizer L vocab = Inr tokenizer"
    and "SQuADTransform L tokenizer = Inr transform"
  shows "model_fn L params_path [] =
           map_sum id (\<lambda>net'. [net', vocab, transform]) (load_parameters L net params_path) \<and>
         model_fn L params_path (c # cs) =
           map_sum id (\<lambda>net'. [net', vocab, transform])
             (load_parameters L net ((c # cs) @ ''/'' @ params_path))"
proof -
  have "and_then r (\<lambda>net'. Inr [net', vocab, transform]) =
          map_sum id (\<lambda>net'. [net', vocab, transform]) r" for r :: "exn + 'a"
    by (cases r) simp_all
  with assms show ?thesis
    by (simp add: model_fn_def)
qed

theorem model_fn_weights_path_witness:
  "model_fn demo_lib ''w.params'' [] = Inr [12, 1, 4] \<and>
   load_parameters demo_lib 2 ''w.params'' = Inr 12 \<and>
   model_fn demo_lib ''w.params'' ''/opt/ml/model'' = Inr [12, 1, 4] \<and>
   load_parameters demo_lib 2 ''/opt/ml/model/w.params'' = Inr 12 \<and>
   model_fn demo_lib ''w.params'' ''/tmp'' = Inl (Raised ''FileNotFoundError'') \<and>
   load_parameters demo_lib 2 ''/tmp/w.params'' = Inl (Raised ''FileNotFoundError'')"
proof -
  have g: "get_model demo_lib = Inr (0, 1)" and b: "BertForQA demo_lib 0 = Inr 2"
    and t: "BERTTokenizer demo_lib 1 = Inr 3" and s: "SQuADTransform demo_lib 3 = Inr 4"
    by (simp_all add: demo_lib_def)
  have l: "load_parameters demo_lib 2 ''w.params'' = Inr 12"
    "load_parameters demo_lib 2 ''/opt/ml/model/w.params'' = Inr 12"
    "load_parameters demo_lib 2 ''/tmp/w.params'' = Inl (Raised ''FileNotFoundError'')"
    by (simp_all add: demo_lib_def)
  from model_fn_weights_path [OF g b t s, of "''w.params''" "CHR ''/''" "''opt/ml/model''"]
    model_fn_weights_path [OF g b t s, of "''w.params''" "CHR ''/''" "''tmp''"] l
  show ?thesis by simp
qed

text \<open>
  C9. In the notebook read from top to bottom, \<^verbatim>\<open>deploy\<close>, \<^verbatim>\<open>predict\<close> and
  \<^verbatim>\<open>delete_endpoint\<close> are each called once, in the seventh, eighth and tenth code cell:
  the endpoint is created before it is queried and queried before it is deleted.
\<close>

theorem endpoint_lifecycle_order:
  "positions Deploy (concat notebook) = [6] \<and>
   positions Predict (concat notebook) = [7] \<and>
   positions Delete_endpoint (concat notebook) = [9] \<and>
   precedes Deploy Predict (concat notebook) \<and>
   precedes Predict Delete_endpoint (concat notebook) \<and>
   precedes Deploy Delete_endpoint (concat notebook)"
  by (simp add: notebook_def positions_def precedes_def upt_rec [of _ "numeral _"])

end
